theory Spec2Isabelle
  imports Main "HOL-Library.Word"
begin

unbundle bit_operations_syntax

section \<open>Terminal attributes\<close>

text \<open>
  \<open>termbox.Attribute\<close> is an unsigned 16-bit integer holding a colour number in its low
  bits and one flag bit per emphasis.  The constants below are those of the termbox-go
  library that \<open>config.go\<close> imports: the colours are \<open>iota\<close> from zero, the emphasis flags
  are \<open>1 << (iota + 9)\<close>.
\<close>

type_synonym Attribute = "16 word"

definition ColorDefault :: Attribute where "ColorDefault = 0"
definition ColorBlack :: Attribute where "ColorBlack = 1"
definition ColorRed :: Attribute where "ColorRed = 2"
definition ColorGreen :: Attribute where "ColorGreen = 3"
definition ColorYellow :: Attribute where "ColorYellow = 4"
definition ColorBlue :: Attribute where "ColorBlue = 5"
definition ColorMagenta :: Attribute where "ColorMagenta = 6"
definition ColorCyan :: Attribute where "ColorCyan = 7"
definition ColorWhite :: Attribute where "ColorWhite = 8"

definition AttrBold :: Attribute where "AttrBold = push_bit 9 1"
definition AttrUnderline :: Attribute where "AttrUnderline = push_bit 10 1"
definition AttrReverse :: Attribute where "AttrReverse = push_bit 11 1"

text \<open>
  The part of an attribute that is not an emphasis flag: the attribute with the three
  flag bits cleared.
\<close>

definition baseColor :: "Attribute \<Rightarrow> Attribute" where
  "baseColor a = a AND NOT (AttrBold OR AttrUnderline OR AttrReverse)"

section \<open>Styles and the token tables\<close>

record Style =
  fg :: Attribute
  bg :: Attribute

record StyleSet =
  Basic :: Style
  SavedSelection :: Style
  Selected :: Style
  Query :: Style
  Matched :: Style

definition stringToFg :: "string \<rightharpoonup> Attribute" where
  "stringToFg = map_of
     [(''default'', ColorDefault),
      (''black'', ColorBlack),
      (''red'', ColorRed),
      (''green'', ColorGreen),
      (''yellow'', ColorYellow),
      (''blue'', ColorBlue),
      (''magenta'', ColorMagenta),
      (''cyan'', ColorCyan),
      (''white'', ColorWhite)]"

definition stringToBg :: "string \<rightharpoonup> Attribute" where
  "stringToBg = map_of
     [(''on_default'', ColorDefault),
      (''on_black'', ColorBlack),
      (''on_red'', ColorRed),
      (''on_green'', ColorGreen),
      (''on_yellow'', ColorYellow),
      (''on_blue'', ColorBlue),
      (''on_magenta'', ColorMagenta),
      (''on_cyan'', ColorCyan),
      (''on_white'', ColorWhite)]"

definition stringToFgAttr :: "string \<rightharpoonup> Attribute" where
  "stringToFgAttr = map_of
     [(''bold'', AttrBold),
      (''underline'', AttrUnderline),
      (''blink'', AttrReverse)]"

definition stringToBgAttr :: "string \<rightharpoonup> Attribute" where
  "stringToBgAttr = map_of [(''blink'', AttrBold)]"

definition NewStyleSet :: StyleSet where
  "NewStyleSet =
     \<lparr> Basic = \<lparr> fg = ColorDefault, bg = ColorDefault \<rparr>,
       SavedSelection = \<lparr> fg = ColorBlack OR AttrBold, bg = ColorCyan \<rparr>,
       Selected = \<lparr> fg = ColorDefault OR AttrUnderline, bg = ColorMagenta \<rparr>,
       Query = \<lparr> fg = ColorDefault, bg = ColorDefault \<rparr>,
       Matched = \<lparr> fg = ColorCyan, bg = ColorDefault \<rparr> \<rparr>"

section \<open>Resolving a token sequence\<close>

text \<open>
  \<open>stringsToStyle\<close> runs two \<open>range\<close> loops over the same slice.  Each loop is a
  \<open>fold\<close> of its body: \<open>colorStep\<close> is the body of the first loop, \<open>attrStep\<close> the
  body of the second.
\<close>

definition colorStep :: "string \<Rightarrow> Style \<Rightarrow> Style" where
  "colorStep s style =
     (let style1 = (case stringToFg s of Some c \<Rightarrow> style\<lparr> fg := c \<rparr> | None \<Rightarrow> style)
      in (case stringToBg s of Some c \<Rightarrow> style1\<lparr> bg := c \<rparr> | None \<Rightarrow> style1))"

definition attrStep :: "string \<Rightarrow> Style \<Rightarrow> Style" where
  "attrStep s style =
     (let style1 = (case stringToFgAttr s of
                      Some a \<Rightarrow> style\<lparr> fg := fg style OR a \<rparr> | None \<Rightarrow> style)
      in (case stringToBgAttr s of
            Some a \<Rightarrow> style1\<lparr> bg := bg style1 OR a \<rparr> | None \<Rightarrow> style1))"

definition stringsToStyle :: "string list \<Rightarrow> Style" where
  "stringsToStyle raw =
     fold attrStep raw
       (fold colorStep raw \<lparr> fg = ColorDefault, bg = ColorDefault \<rparr>)"

section \<open>Errors\<close>

text \<open>
  Go's \<open>error\<close> values, as far as this file produces or passes them on: a failed
  \<open>os.Open\<close> or \<open>os.Stat\<close> (operation and path), a failure to read the next JSON value
  from the stream (syntax error, end of input), a JSON value of the wrong kind for its Go
  target (kind of the value, Go type of the target), and a \<open>fmt.Errorf\<close> message.
\<close>

datatype error =
    PathError string string
  | StreamError
  | UnmarshalTypeError string string
  | ErrorString string

section \<open>The configuration\<close>

text \<open>
  A Go map is either \<open>nil\<close> or an allocated table: \<open>None\<close> is the \<open>nil\<close> map.  Reading a
  key from a \<open>nil\<close> map does not panic, it reports the key as absent (\<open>mapIndex\<close>).
\<close>

type_synonym ('k, 'v) gomap = "('k \<rightharpoonup> 'v) option"

definition mapIndex :: "('k, 'v) gomap \<Rightarrow> 'k \<Rightarrow> 'v option" where
  "mapIndex m k = (case m of None \<Rightarrow> None | Some t \<Rightarrow> t k)"

record Config =
  Action :: "(string, string list) gomap"
  Keymap :: "(string, string) gomap"
  Matcher :: string
  Style :: StyleSet
  CustomMatcher :: "(string, string list) gomap"
  Prompt :: string

text \<open>
  Modelled from the spec: the constant \<open>IgnoreCaseMatch\<close> is declared in a file of the
  repository that is not among the sources; the specification gives the default matcher
  name as "IgnoreCase".
\<close>

definition IgnoreCaseMatch :: string where
  "IgnoreCaseMatch = ''IgnoreCase''"

text \<open>
  The composite literal of \<open>NewConfig\<close> names \<open>Keymap\<close>, \<open>Matcher\<close>, \<open>Style\<close> and
  \<open>Prompt\<close>; the fields it does not name get Go's zero value, which for a map is \<open>nil\<close>.
\<close>

definition NewConfig :: Config where
  "NewConfig =
     \<lparr> Action = None,
       Keymap = Some Map.empty,
       Matcher = IgnoreCaseMatch,
       Style = NewStyleSet,
       CustomMatcher = None,
       Prompt = ''QUERY>'' \<rparr>"

section \<open>JSON documents and \<open>encoding/json\<close>\<close>

text \<open>
  A document is a JSON value; an object keeps its members in the order of the text,
  duplicates included, because the decoder handles them one after the other.
\<close>

datatype json =
    JNull
  | JBool bool
  | JNumber string
  | JString string
  | JArray "json list"
  | JObject "(string \<times> json) list"

definition jsonKind :: "json \<Rightarrow> string" where
  "jsonKind j =
     (case j of
        JNull \<Rightarrow> ''null''
      | JBool b \<Rightarrow> ''bool''
      | JNumber n \<Rightarrow> ''number''
      | JString s \<Rightarrow> ''string''
      | JArray js \<Rightarrow> ''array''
      | JObject kvs \<Rightarrow> ''object'')"

text \<open>
  The decoder keeps the first type mismatch it meets (\<open>saveError\<close>) and goes on decoding;
  the saved error is returned when the whole value has been processed.
\<close>

definition saveError :: "error \<Rightarrow> error option \<Rightarrow> error option" where
  "saveError e saved = (case saved of None \<Rightarrow> Some e | Some e0 \<Rightarrow> Some e0)"

definition typeError :: "json \<Rightarrow> string \<Rightarrow> error" where
  "typeError j ty = UnmarshalTypeError (jsonKind j) ty"

text \<open>
  An error returned by a type's own \<open>UnmarshalJSON\<close> stops the decoder at once.  Either
  way the target keeps what was stored into it so far, so both outcomes carry the
  target: \<open>Continue\<close> with the saved error, \<open>Abort\<close> with the error that stopped it.
\<close>

datatype 'a outcome = Continue 'a "error option" | Abort 'a error

definition target :: "'a outcome \<Rightarrow> 'a" where
  "target r = (case r of Continue a saved \<Rightarrow> a | Abort a e \<Rightarrow> a)"

subsection \<open>Struct fields by key\<close>

text \<open>
  A key of a JSON object selects the struct field whose name it equals, and failing that
  the first field whose name it equals under Unicode simple case folding.  The field
  names here are ASCII, so a key folds to a name when each byte of the name meets, in the
  key, the same ASCII character up to letter case, or, for \<open>k\<close> and \<open>s\<close>, the UTF-8
  encoding of the Kelvin sign (U+212A) or of the long s (U+017F).
\<close>

definition toUpper :: "char \<Rightarrow> char" where
  "toUpper c =
     (let n = (of_char c :: nat)
      in if 97 \<le> n \<and> n \<le> 122 then char_of (n - 32) else c)"

definition kelvin :: string where
  "kelvin = [char_of (0xE2 :: nat), char_of (0x84 :: nat), char_of (0xAA :: nat)]"

definition smallLongEss :: string where
  "smallLongEss = [char_of (0xC5 :: nat), char_of (0xBF :: nat)]"

fun equalFold :: "string \<Rightarrow> string \<Rightarrow> bool" where
  "equalFold [] [] = True"
| "equalFold [] (t # ts) = False"
| "equalFold (s # ss) [] = False"
| "equalFold (s # ss) (t # ts) =
     (if (of_char t :: nat) < 128 then toUpper s = toUpper t \<and> equalFold ss ts
      else if toUpper s = CHR ''K'' then take 3 (t # ts) = kelvin \<and> equalFold ss (drop 2 ts)
      else if toUpper s = CHR ''S'' then take 2 (t # ts) = smallLongEss \<and> equalFold ss (drop 1 ts)
      else False)"

definition findField :: "(string \<times> 'f) list \<Rightarrow> string \<Rightarrow> 'f option" where
  "findField flds key =
     (case map_of flds key of
        Some f \<Rightarrow> Some f
      | None \<Rightarrow> map_option snd (find (\<lambda>nf. equalFold (fst nf) key) flds))"

subsection \<open>Strings, slices of strings, maps\<close>

text \<open>
  Into a \<open>string\<close>: a JSON string is stored, \<open>null\<close> leaves the target as it is, any other
  value is a type mismatch and leaves the target as it is.
\<close>

definition value_string :: "json \<Rightarrow> string \<Rightarrow> error option \<Rightarrow> string \<times> error option" where
  "value_string j v saved =
     (case j of
        JString s \<Rightarrow> (s, saved)
      | JNull \<Rightarrow> (v, saved)
      | JBool b \<Rightarrow> (v, saveError (typeError j ''string'') saved)
      | JNumber n \<Rightarrow> (v, saveError (typeError j ''string'') saved)
      | JArray js \<Rightarrow> (v, saveError (typeError j ''string'') saved)
      | JObject kvs \<Rightarrow> (v, saveError (typeError j ''string'') saved))"

text \<open>
  Into a \<open>[]string\<close> without spare capacity (every slice decoded here starts as \<open>nil\<close> or
  as \<open>[]string{}\<close>): the elements of a JSON array are decoded one by one into fresh
  empty strings; \<open>null\<close> makes the slice \<open>nil\<close>, which a list does not tell from the empty
  slice.
\<close>

fun array_strings :: "json list \<Rightarrow> error option \<Rightarrow> string list \<times> error option" where
  "array_strings [] saved = ([], saved)"
| "array_strings (j # js) saved =
     (let (s, saved1) = value_string j '''' saved;
          (ss, saved2) = array_strings js saved1
      in (s # ss, saved2))"

definition value_strings ::
  "json \<Rightarrow> string list \<Rightarrow> error option \<Rightarrow> string list \<times> error option" where
  "value_strings j v saved =
     (case j of
        JArray js \<Rightarrow> array_strings js saved
      | JNull \<Rightarrow> ([], saved)
      | JBool b \<Rightarrow> (v, saveError (typeError j ''[]string'') saved)
      | JNumber n \<Rightarrow> (v, saveError (typeError j ''[]string'') saved)
      | JString s \<Rightarrow> (v, saveError (typeError j ''[]string'') saved)
      | JObject kvs \<Rightarrow> (v, saveError (typeError j ''[]string'') saved))"

text \<open>
  Into a map: a JSON object is decoded into the existing table, or into a new one when
  the map is \<open>nil\<close>; each member is decoded into a fresh zero element which is then stored
  under its key, mismatch or not.  \<open>null\<close> makes the map \<open>nil\<close>.
\<close>

fun object_map_string ::
  "(string \<times> json) list \<Rightarrow> (string \<rightharpoonup> string) \<Rightarrow> error option
     \<Rightarrow> (string \<rightharpoonup> string) \<times> error option" where
  "object_map_string [] m saved = (m, saved)"
| "object_map_string (kv # kvs) m saved =
     (let (s, saved1) = value_string (snd kv) '''' saved
      in object_map_string kvs (m(fst kv \<mapsto> s)) saved1)"

definition value_map_string ::
  "json \<Rightarrow> (string, string) gomap \<Rightarrow> error option
     \<Rightarrow> (string, string) gomap \<times> error option" where
  "value_map_string j v saved =
     (case j of
        JObject kvs \<Rightarrow>
          (let (m, saved1) =
                 object_map_string kvs (case v of None \<Rightarrow> Map.empty | Some t \<Rightarrow> t) saved
           in (Some m, saved1))
      | JNull \<Rightarrow> (None, saved)
      | JBool b \<Rightarrow> (v, saveError (typeError j ''map[string]string'') saved)
      | JNumber n \<Rightarrow> (v, saveError (typeError j ''map[string]string'') saved)
      | JString s \<Rightarrow> (v, saveError (typeError j ''map[string]string'') saved)
      | JArray js \<Rightarrow> (v, saveError (typeError j ''map[string]string'') saved))"

fun object_map_strings ::
  "(string \<times> json) list \<Rightarrow> (string \<rightharpoonup> string list) \<Rightarrow> error option
     \<Rightarrow> (string \<rightharpoonup> string list) \<times> error option" where
  "object_map_strings [] m saved = (m, saved)"
| "object_map_strings (kv # kvs) m saved =
     (let (ss, saved1) = value_strings (snd kv) [] saved
      in object_map_strings kvs (m(fst kv \<mapsto> ss)) saved1)"

definition value_map_strings ::
  "json \<Rightarrow> (string, string list) gomap \<Rightarrow> error option
     \<Rightarrow> (string, string list) gomap \<times> error option" where
  "value_map_strings j v saved =
     (case j of
        JObject kvs \<Rightarrow>
          (let (m, saved1) =
                 object_map_strings kvs (case v of None \<Rightarrow> Map.empty | Some t \<Rightarrow> t) saved
           in (Some m, saved1))
      | JNull \<Rightarrow> (None, saved)
      | JBool b \<Rightarrow> (v, saveError (typeError j ''map[string][]string'') saved)
      | JNumber n \<Rightarrow> (v, saveError (typeError j ''map[string][]string'') saved)
      | JString s \<Rightarrow> (v, saveError (typeError j ''map[string][]string'') saved)
      | JArray js \<Rightarrow> (v, saveError (typeError j ''map[string][]string'') saved))"


subsection \<open>\<open>Style.UnmarshalJSON\<close>\<close>

text \<open>
  \<open>json.Unmarshal(buf, &raw)\<close> with \<open>raw\<close> a \<open>[]string\<close>: the value is decoded into the
  slice and the saved error, if any, is returned.
\<close>

definition Unmarshal_strings :: "json \<Rightarrow> string list \<Rightarrow> string list \<times> error option" where
  "Unmarshal_strings buf raw = value_strings buf raw None"

text \<open>
  The receiver is overwritten only after \<open>json.Unmarshal\<close> has succeeded; the result is
  the receiver after the call and the error returned.
\<close>

definition Style_UnmarshalJSON :: "json \<Rightarrow> Style \<Rightarrow> Style \<times> error option" where
  "Style_UnmarshalJSON buf s =
     (let (raw, err) = Unmarshal_strings buf []
      in (case err of
            Some e \<Rightarrow> (s, Some e)
          | None \<Rightarrow> (stringsToStyle raw, None)))"

subsection \<open>The \<open>StyleSet\<close> struct\<close>

datatype StyleSet_field = FBasic | FSavedSelection | FSelected | FQuery | FMatched

definition StyleSet_fields :: "(string \<times> StyleSet_field) list" where
  "StyleSet_fields =
     [(''Basic'', FBasic),
      (''SavedSelection'', FSavedSelection),
      (''Selected'', FSelected),
      (''Query'', FQuery),
      (''Matched'', FMatched)]"

definition slot :: "StyleSet_field \<Rightarrow> StyleSet \<Rightarrow> Style" where
  "slot f ss =
     (case f of
        FBasic \<Rightarrow> Basic ss
      | FSavedSelection \<Rightarrow> SavedSelection ss
      | FSelected \<Rightarrow> Selected ss
      | FQuery \<Rightarrow> Query ss
      | FMatched \<Rightarrow> Matched ss)"

definition set_slot :: "StyleSet_field \<Rightarrow> Style \<Rightarrow> StyleSet \<Rightarrow> StyleSet" where
  "set_slot f s ss =
     (case f of
        FBasic \<Rightarrow> ss\<lparr> Basic := s \<rparr>
      | FSavedSelection \<Rightarrow> ss\<lparr> SavedSelection := s \<rparr>
      | FSelected \<Rightarrow> ss\<lparr> Selected := s \<rparr>
      | FQuery \<Rightarrow> ss\<lparr> Query := s \<rparr>
      | FMatched \<Rightarrow> ss\<lparr> Matched := s \<rparr>)"

text \<open>
  Every field of \<open>StyleSet\<close> is a \<open>Style\<close>, whose pointer type implements
  \<open>json.Unmarshaler\<close>: whatever the JSON value of a member is, the decoder hands it to
  \<open>UnmarshalJSON\<close> on the field.  A key that selects no field is skipped.
\<close>

fun object_StyleSet ::
  "(string \<times> json) list \<Rightarrow> StyleSet \<Rightarrow> error option \<Rightarrow> StyleSet outcome" where
  "object_StyleSet [] ss saved = Continue ss saved"
| "object_StyleSet (kv # kvs) ss saved =
     (case findField StyleSet_fields (fst kv) of
        None \<Rightarrow> object_StyleSet kvs ss saved
      | Some f \<Rightarrow>
          (case Style_UnmarshalJSON (snd kv) (slot f ss) of
             (s, Some e) \<Rightarrow> Abort (set_slot f s ss) e
           | (s, None) \<Rightarrow> object_StyleSet kvs (set_slot f s ss) saved))"

definition value_StyleSet :: "json \<Rightarrow> StyleSet \<Rightarrow> error option \<Rightarrow> StyleSet outcome" where
  "value_StyleSet j v saved =
     (case j of
        JObject kvs \<Rightarrow> object_StyleSet kvs v saved
      | JNull \<Rightarrow> Continue v saved
      | JBool b \<Rightarrow> Continue v (saveError (typeError j ''peco.StyleSet'') saved)
      | JNumber n \<Rightarrow> Continue v (saveError (typeError j ''peco.StyleSet'') saved)
      | JString s \<Rightarrow> Continue v (saveError (typeError j ''peco.StyleSet'') saved)
      | JArray js \<Rightarrow> Continue v (saveError (typeError j ''peco.StyleSet'') saved))"

subsection \<open>The \<open>Config\<close> struct\<close>

datatype Config_field = FAction | FKeymap | FMatcher | FStyle | FCustomMatcher | FPrompt

definition Config_fields :: "(string \<times> Config_field) list" where
  "Config_fields =
     [(''Action'', FAction),
      (''Keymap'', FKeymap),
      (''Matcher'', FMatcher),
      (''Style'', FStyle),
      (''CustomMatcher'', FCustomMatcher),
      (''Prompt'', FPrompt)]"

definition value_field ::
  "Config_field \<Rightarrow> json \<Rightarrow> Config \<Rightarrow> error option \<Rightarrow> Config outcome" where
  "value_field f j c saved =
     (case f of
        FAction \<Rightarrow>
          (let (m, saved1) = value_map_strings j (Action c) saved
           in Continue (c\<lparr> Action := m \<rparr>) saved1)
      | FKeymap \<Rightarrow>
          (let (m, saved1) = value_map_string j (Keymap c) saved
           in Continue (c\<lparr> Keymap := m \<rparr>) saved1)
      | FMatcher \<Rightarrow>
          (let (s, saved1) = value_string j (Matcher c) saved
           in Continue (c\<lparr> Matcher := s \<rparr>) saved1)
      | FStyle \<Rightarrow>
          (case value_StyleSet j (Style c) saved of
             Continue ss saved1 \<Rightarrow> Continue (c\<lparr> Style := ss \<rparr>) saved1
           | Abort ss e \<Rightarrow> Abort (c\<lparr> Style := ss \<rparr>) e)
      | FCustomMatcher \<Rightarrow>
          (let (m, saved1) = value_map_strings j (CustomMatcher c) saved
           in Continue (c\<lparr> CustomMatcher := m \<rparr>) saved1)
      | FPrompt \<Rightarrow>
          (let (s, saved1) = value_string j (Prompt c) saved
           in Continue (c\<lparr> Prompt := s \<rparr>) saved1))"

fun object_Config ::
  "(string \<times> json) list \<Rightarrow> Config \<Rightarrow> error option \<Rightarrow> Config outcome" where
  "object_Config [] c saved = Continue c saved"
| "object_Config (kv # kvs) c saved =
     (case findField Config_fields (fst kv) of
        None \<Rightarrow> object_Config kvs c saved
      | Some f \<Rightarrow>
          (case value_field f (snd kv) c saved of
             Abort c1 e \<Rightarrow> Abort c1 e
           | Continue c1 saved1 \<Rightarrow> object_Config kvs c1 saved1))"

definition value_Config :: "json \<Rightarrow> Config \<Rightarrow> error option \<Rightarrow> Config outcome" where
  "value_Config j v saved =
     (case j of
        JObject kvs \<Rightarrow> object_Config kvs v saved
      | JNull \<Rightarrow> Continue v saved
      | JBool b \<Rightarrow> Continue v (saveError (typeError j ''peco.Config'') saved)
      | JNumber n \<Rightarrow> Continue v (saveError (typeError j ''peco.Config'') saved)
      | JString s \<Rightarrow> Continue v (saveError (typeError j ''peco.Config'') saved)
      | JArray js \<Rightarrow> Continue v (saveError (typeError j ''peco.Config'') saved))"

text \<open>
  \<open>Decoder.Decode\<close> first reads one complete JSON value from the stream, and fails
  without touching the target when there is none (\<open>Inl\<close>: syntax error, end of input,
  read error).  Only then is the value decoded into the target; the result is the target
  after the call and the error returned.
\<close>

definition Decode :: "error + json \<Rightarrow> Config \<Rightarrow> Config \<times> error option" where
  "Decode stream c =
     (case stream of
        Inl e \<Rightarrow> (c, Some e)
      | Inr j \<Rightarrow>
          (case value_Config j c None of
             Continue c1 saved \<Rightarrow> (c1, saved)
           | Abort c1 e \<Rightarrow> (c1, Some e)))"

section \<open>The world outside\<close>

text \<open>
  What the program reads from its surroundings: the environment variables (\<open>os.Getenv\<close>
  gives the empty string for a variable that is not set), the result of \<open>homedirFunc\<close>
  (a function of the repository that is not among the sources, taken as given),
  \<open>os.Stat\<close> (\<open>None\<close> when it succeeds) and \<open>os.Open\<close> (the stream of the opened file as
  the JSON decoder will see it).
\<close>

record world =
  getenv :: "string \<Rightarrow> string"
  homedirFunc :: "error + string"
  stat :: "string \<Rightarrow> error option"
  openFile :: "string \<Rightarrow> error + (error + json)"

section \<open>\<open>ReadFilename\<close>\<close>

text \<open>
  The receiver is a pointer and is written in place, so the configuration after the call
  is part of the result, next to the error returned (\<open>None\<close> for \<open>nil\<close>).  The deferred
  \<open>f.Close()\<close> runs on every path after the file was opened and changes neither.
\<close>

definition ReadFilename :: "world \<Rightarrow> Config \<Rightarrow> string \<Rightarrow> Config \<times> error option" where
  "ReadFilename w c filename =
     (case openFile w filename of
        Inl err \<Rightarrow> (c, Some err)
      | Inr f \<Rightarrow>
          (case Decode f c of
             (c1, Some err) \<Rightarrow> (c1, Some err)
           | (c1, None) \<Rightarrow> (c1, None)))"


section \<open>Paths\<close>

text \<open>
  The functions of \<open>strings\<close> and \<open>path/filepath\<close> that \<open>LocateRcfile\<close> calls, on a Unix
  system: the path separator is \<open>/\<close> and the list separator is \<open>:\<close>.
\<close>

definition Separator :: char where
  "Separator = CHR ''/''"

definition ListSeparator :: char where
  "ListSeparator = CHR '':''"

text \<open>\<open>strings.Split\<close> with a separator of one character: empty pieces are kept.\<close>

fun Split :: "string \<Rightarrow> char \<Rightarrow> string list" where
  "Split [] sep = [[]]"
| "Split (c # cs) sep =
     (if c = sep then [] # Split cs sep
      else (case Split cs sep of
              [] \<Rightarrow> [[c]]
            | x # xs \<Rightarrow> (c # x) # xs))"

text \<open>\<open>strings.Join\<close> with a separator of one character.\<close>

fun strings_Join :: "string list \<Rightarrow> char \<Rightarrow> string" where
  "strings_Join [] sep = []"
| "strings_Join [x] sep = x"
| "strings_Join (x # y # ys) sep = x @ sep # strings_Join (y # ys) sep"

text \<open>
  \<open>filepath.Clean\<close>, on the elements between separators: empty elements and \<open>.\<close> are
  dropped; \<open>..\<close> removes the element before it when there is one that is not \<open>..\<close>, is
  dropped at the root of a rooted path, and is kept otherwise.  The empty result is \<open>.\<close>.
\<close>

definition cleanStep :: "bool \<Rightarrow> string \<Rightarrow> string list \<Rightarrow> string list" where
  "cleanStep rooted c out =
     (if c = [] then out
      else if c = ''.'' then out
      else if c = ''..'' then
        (if out = [] then (if rooted then out else out @ [c])
         else if last out = ''..'' then out @ [c]
         else butlast out)
      else out @ [c])"

definition Clean :: "string \<Rightarrow> string" where
  "Clean path =
     (case path of
        [] \<Rightarrow> ''.''
      | c # cs \<Rightarrow>
          (let rooted = (c = Separator);
               out = fold (cleanStep rooted) (Split path Separator) [];
               r = (if rooted then [Separator] else []) @ strings_Join out Separator
           in if r = [] then ''.'' else r))"

text \<open>
  \<open>filepath.Join\<close>: the elements from the first non-empty one on are joined by the
  separator and the result is cleaned; with no non-empty element the result is empty.
\<close>

definition Join :: "string list \<Rightarrow> string" where
  "Join elem =
     (case dropWhile (\<lambda>e. e = []) elem of
        [] \<Rightarrow> []
      | e # es \<Rightarrow> Clean (strings_Join (e # es) Separator))"

section \<open>\<open>LocateRcfile\<close>\<close>

text \<open>
  What a search asks of the world is recorded, in order: the call of \<open>homedirFunc\<close>, each
  variable read with \<open>os.Getenv\<close>, each path given to \<open>os.Stat\<close>.  Every function below
  takes the record so far and returns it extended.
\<close>

datatype event = CallHomedir | Getenv string | Stat string

definition locateRcfileIn ::
  "world \<Rightarrow> string \<Rightarrow> event list \<Rightarrow> (error + string) \<times> event list" where
  "locateRcfileIn w dir tr =
     (let file = Join [dir, ''config.json'']
      in (case stat w file of
            Some err \<Rightarrow> (Inl err, tr @ [Stat file])
          | None \<Rightarrow> (Inr file, tr @ [Stat file])))"

text \<open>
  The loop over the entries of \<open>XDG_CONFIG_DIRS\<close>: \<open>Some file\<close> is the \<open>return\<close> inside
  the loop, \<open>None\<close> is the loop running to its end.
\<close>

fun tryDirs :: "world \<Rightarrow> string list \<Rightarrow> event list \<Rightarrow> string option \<times> event list" where
  "tryDirs w [] tr = (None, tr)"
| "tryDirs w (dir # dirs) tr =
     (case locateRcfileIn w (Join [dir, ''peco'']) tr of
        (Inr file, tr1) \<Rightarrow> (Some file, tr1)
      | (Inl err, tr1) \<Rightarrow> tryDirs w dirs tr1)"

definition notFound :: error where
  "notFound = ErrorString ''error: Config file not found''"

text \<open>
  \<open>_locateRcfileIn\<close> is a package variable that holds \<open>locateRcfileIn\<close>.  The three
  stages follow the three blocks of the function; \<open>Some file\<close> out of a stage is its
  \<open>return file, nil\<close>.
\<close>

definition LocateRcfile :: "world \<Rightarrow> (error + string) \<times> event list" where
  "LocateRcfile w =
     (let uRes = homedirFunc w;
          tr0 = [CallHomedir];
          dir = getenv w ''XDG_CONFIG_HOME'';
          tr1 = tr0 @ [Getenv ''XDG_CONFIG_HOME''];
          (first, tr2) =
            (if dir \<noteq> [] then
               (case locateRcfileIn w (Join [dir, ''peco'']) tr1 of
                  (Inr file, t) \<Rightarrow> (Some file, t)
                | (Inl err, t) \<Rightarrow> (None, t))
             else
               (case uRes of
                  Inr home \<Rightarrow>
                    (case locateRcfileIn w (Join [home, ''.config'', ''peco'']) tr1 of
                       (Inr file, t) \<Rightarrow> (Some file, t)
                     | (Inl err, t) \<Rightarrow> (None, t))
                | Inl uErr \<Rightarrow> (None, tr1)))
      in (case first of
            Some file \<Rightarrow> (Inr file, tr2)
          | None \<Rightarrow>
              (let dirs = getenv w ''XDG_CONFIG_DIRS'';
                   tr3 = tr2 @ [Getenv ''XDG_CONFIG_DIRS''];
                   (second, tr4) =
                     (if dirs \<noteq> [] then tryDirs w (Split dirs ListSeparator) tr3
                      else (None, tr3))
               in (case second of
                     Some file \<Rightarrow> (Inr file, tr4)
                   | None \<Rightarrow>
                       (case uRes of
                          Inr home \<Rightarrow>
                            (case locateRcfileIn w (Join [home, ''.peco'']) tr4 of
                               (Inr file, t) \<Rightarrow> (Inr file, t)
                             | (Inl err, t) \<Rightarrow> (Inl notFound, t))
                        | Inl uErr \<Rightarrow> (Inl notFound, tr4))))))"

section \<open>The specification's reading\<close>

text \<open>
  The colour a channel ends with according to the specification: the one named by the
  last token of the sequence that the channel's colour table knows, the default colour
  when there is none.
\<close>

definition lastMatch :: "(string \<rightharpoonup> Attribute) \<Rightarrow> string list \<Rightarrow> Attribute" where
  "lastMatch tbl raw =
     (case rev (List.map_filter tbl raw) of
        [] \<Rightarrow> ColorDefault
      | c # cs \<Rightarrow> c)"

text \<open>The emphasis flags that a token sequence names in an emphasis table, OR'ed.\<close>

definition emphasis :: "(string \<rightharpoonup> Attribute) \<Rightarrow> string list \<Rightarrow> Attribute" where
  "emphasis tbl raw = fold (OR) (List.map_filter tbl raw) 0"

text \<open>A token that one of the four tables knows.\<close>

definition recognized :: "string \<Rightarrow> bool" where
  "recognized s =
     (s \<in> dom stringToFg \<union> dom stringToBg \<union> dom stringToFgAttr \<union> dom stringToBgAttr)"


section \<open>Members that have the shape of their field\<close>









section \<open>Sample worlds\<close>

text \<open>
  A world in which every \<open>os.Open\<close> yields the given stream, no variable is set, the
  home directory is not known and no file exists for \<open>os.Stat\<close>.
\<close>

definition fileWorld :: "error + json \<Rightarrow> world" where
  "fileWorld stream =
     \<lparr> getenv = (\<lambda>v. []),
       homedirFunc = Inl (ErrorString ''no home''),
       stat = (\<lambda>p. Some (PathError ''stat'' p)),
       openFile = (\<lambda>p. Inr stream) \<rparr>"

text \<open>
  A world with the given home directory in which no variable is set, no file exists for
  \<open>os.Stat\<close> and every \<open>os.Open\<close> fails.
\<close>

definition emptyWorld :: "error + string \<Rightarrow> world" where
  "emptyWorld home =
     \<lparr> getenv = (\<lambda>v. []),
       homedirFunc = home,
       stat = (\<lambda>p. Some (PathError ''stat'' p)),
       openFile = (\<lambda>p. Inl (PathError ''open'' p)) \<rparr>"

text \<open>
  A world with \<open>XDG_CONFIG_HOME=/tmp/a\<close>, \<open>XDG_CONFIG_DIRS=/etc/xdg\<close>, the home directory
  \<open>/home/u\<close>, and the files given by the list.
\<close>

definition xdgWorld :: "string list \<Rightarrow> world" where
  "xdgWorld files =
     \<lparr> getenv = (\<lambda>v. if v = ''XDG_CONFIG_HOME'' then ''/tmp/a''
                      else if v = ''XDG_CONFIG_DIRS'' then ''/etc/xdg'' else []),
       homedirFunc = Inr ''/home/u'',
       stat = (\<lambda>p. if p \<in> set files then None else Some (PathError ''stat'' p)),
       openFile = (\<lambda>p. Inl (PathError ''open'' p)) \<rparr>"

section \<open>The specification's search order\<close>

text \<open>
  The search order of the specification as a list of candidate files: step 1 or else
  step 2, then the entries of step 3, then step 4.
\<close>

definition rcfile :: "string \<Rightarrow> string" where
  "rcfile dir = Join [dir, ''config.json'']"

definition candidates :: "world \<Rightarrow> string list" where
  "candidates w =
     (if getenv w ''XDG_CONFIG_HOME'' \<noteq> []
      then [rcfile (Join [getenv w ''XDG_CONFIG_HOME'', ''peco''])]
      else (case homedirFunc w of
              Inr home \<Rightarrow> [rcfile (Join [home, ''.config'', ''peco''])]
            | Inl e \<Rightarrow> []))
     @ (if getenv w ''XDG_CONFIG_DIRS'' \<noteq> []
        then map (\<lambda>d. rcfile (Join [d, ''peco'']))
               (Split (getenv w ''XDG_CONFIG_DIRS'') ListSeparator)
        else [])
     @ (case homedirFunc w of
          Inr home \<Rightarrow> [rcfile (Join [home, ''.peco''])]
        | Inl e \<Rightarrow> [])"

text \<open>
  The candidates that a search looks at: all of them up to and including the first that
  exists.
\<close>

fun probes :: "world \<Rightarrow> string list \<Rightarrow> string list" where
  "probes w [] = []"
| "probes w (p # ps) = (if stat w p = None then [p] else p # probes w ps)"

definition statsOf :: "event list \<Rightarrow> string list" where
  "statsOf tr = List.map_filter (\<lambda>e. case e of Stat p \<Rightarrow> Some p | CallHomedir \<Rightarrow> None | Getenv v \<Rightarrow> None) tr"


section \<open>The style resolver: lemmas and claims\<close>

lemmas termbox_defs =
  ColorDefault_def ColorBlack_def ColorRed_def ColorGreen_def ColorYellow_def
  ColorBlue_def ColorMagenta_def ColorCyan_def ColorWhite_def
  AttrBold_def AttrUnderline_def AttrReverse_def

lemma map_filter_snoc:
  "List.map_filter f (xs @ [x]) =
     List.map_filter f xs @ (case f x of None \<Rightarrow> [] | Some y \<Rightarrow> [y])"
  by (simp add: List.map_filter_def split: option.split)

lemma map_filter_Cons:
  "List.map_filter f (x # xs) =
     (case f x of None \<Rightarrow> List.map_filter f xs | Some y \<Rightarrow> y # List.map_filter f xs)"
  by (simp add: List.map_filter_def split: option.split)

lemma colorStep_fg: "fg (colorStep s st) = (case stringToFg s of Some c \<Rightarrow> c | None \<Rightarrow> fg st)"
  by (simp add: colorStep_def split: option.split)

lemma colorStep_bg: "bg (colorStep s st) = (case stringToBg s of Some c \<Rightarrow> c | None \<Rightarrow> bg st)"
  by (simp add: colorStep_def split: option.split)

lemma attrStep_fg:
  "fg (attrStep s st) = (case stringToFgAttr s of Some a \<Rightarrow> fg st OR a | None \<Rightarrow> fg st)"
  by (simp add: attrStep_def split: option.split)

lemma attrStep_bg:
  "bg (attrStep s st) = (case stringToBgAttr s of Some a \<Rightarrow> bg st OR a | None \<Rightarrow> bg st)"
  by (simp add: attrStep_def split: option.split)

lemma first_pass_fg:
  "fg (fold colorStep raw st) =
     (case rev (List.map_filter stringToFg raw) of [] \<Rightarrow> fg st | c # cs \<Rightarrow> c)"
proof (induction raw rule: rev_induct)
  case Nil
  show ?case by (simp add: List.map_filter_def)
next
  case (snoc x xs)
  then show ?case
    by (simp add: map_filter_snoc colorStep_fg split: option.split)
qed

lemma first_pass_bg:
  "bg (fold colorStep raw st) =
     (case rev (List.map_filter stringToBg raw) of [] \<Rightarrow> bg st | c # cs \<Rightarrow> c)"
proof (induction raw rule: rev_induct)
  case Nil
  show ?case by (simp add: List.map_filter_def)
next
  case (snoc x xs)
  then show ?case
    by (simp add: map_filter_snoc colorStep_bg split: option.split)
qed

lemma emphasis_snoc:
  "emphasis tbl (xs @ [x]) =
     (case tbl x of None \<Rightarrow> emphasis tbl xs | Some a \<Rightarrow> emphasis tbl xs OR a)"
  by (simp add: emphasis_def map_filter_snoc or.commute split: option.split)

lemma emphasis_Nil: "emphasis tbl [] = 0"
  by (simp add: emphasis_def List.map_filter_def)

lemma second_pass_fg:
  "fg (fold attrStep raw st) = fg st OR emphasis stringToFgAttr raw"
proof (induction raw rule: rev_induct)
  case Nil
  show ?case by (simp add: emphasis_Nil)
next
  case (snoc x xs)
  then show ?case
    by (simp add: emphasis_snoc attrStep_fg or.assoc split: option.split)
qed

lemma second_pass_bg:
  "bg (fold attrStep raw st) = bg st OR emphasis stringToBgAttr raw"
proof (induction raw rule: rev_induct)
  case Nil
  show ?case by (simp add: emphasis_Nil)
next
  case (snoc x xs)
  then show ?case
    by (simp add: emphasis_snoc attrStep_bg or.assoc split: option.split)
qed

lemma stringsToStyle_fg:
  "fg (stringsToStyle raw) = lastMatch stringToFg raw OR emphasis stringToFgAttr raw"
  by (simp add: stringsToStyle_def second_pass_fg first_pass_fg lastMatch_def split: list.split)

lemma stringsToStyle_bg:
  "bg (stringsToStyle raw) = lastMatch stringToBg raw OR emphasis stringToBgAttr raw"
  by (simp add: stringsToStyle_def second_pass_bg first_pass_bg lastMatch_def split: list.split)

lemma stringsToStyle_closed:
  "stringsToStyle raw =
     \<lparr> fg = lastMatch stringToFg raw OR emphasis stringToFgAttr raw,
       bg = lastMatch stringToBg raw OR emphasis stringToBgAttr raw \<rparr>"
  by (simp add: stringsToStyle_fg stringsToStyle_bg)

lemma baseColor_or: "baseColor (a OR b) = baseColor a OR baseColor b"
  by (simp add: baseColor_def bit.conj_disj_distrib2)

lemma baseColor_fg_color: "stringToFg s = Some c \<Longrightarrow> baseColor c = c"
  by (auto simp add: stringToFg_def baseColor_def termbox_defs split: if_splits)

lemma baseColor_bg_color: "stringToBg s = Some c \<Longrightarrow> baseColor c = c"
  by (auto simp add: stringToBg_def baseColor_def termbox_defs split: if_splits)

lemma baseColor_fg_attr: "stringToFgAttr s = Some a \<Longrightarrow> baseColor a = 0"
  by (auto simp add: stringToFgAttr_def baseColor_def termbox_defs split: if_splits)

lemma baseColor_bg_attr: "stringToBgAttr s = Some a \<Longrightarrow> baseColor a = 0"
  by (auto simp add: stringToBgAttr_def baseColor_def termbox_defs split: if_splits)

lemma baseColor_default: "baseColor ColorDefault = ColorDefault"
  by (simp add: baseColor_def termbox_defs)

lemma lastMatch_snoc:
  "lastMatch tbl (xs @ [x]) = (case tbl x of None \<Rightarrow> lastMatch tbl xs | Some c \<Rightarrow> c)"
  by (simp add: lastMatch_def map_filter_snoc split: option.split)

lemma lastMatch_Nil: "lastMatch tbl [] = ColorDefault"
  by (simp add: lastMatch_def List.map_filter_def)

lemma baseColor_lastMatch_fg: "baseColor (lastMatch stringToFg raw) = lastMatch stringToFg raw"
proof (induction raw rule: rev_induct)
  case Nil
  show ?case by (simp add: lastMatch_Nil baseColor_default)
next
  case (snoc x xs)
  then show ?case
    by (simp add: lastMatch_snoc baseColor_fg_color split: option.split)
qed

lemma baseColor_lastMatch_bg: "baseColor (lastMatch stringToBg raw) = lastMatch stringToBg raw"
proof (induction raw rule: rev_induct)
  case Nil
  show ?case by (simp add: lastMatch_Nil baseColor_default)
next
  case (snoc x xs)
  then show ?case
    by (simp add: lastMatch_snoc baseColor_bg_color split: option.split)
qed

lemma baseColor_emphasis_fg: "baseColor (emphasis stringToFgAttr raw) = 0"
proof (induction raw rule: rev_induct)
  case Nil
  show ?case by (simp add: emphasis_Nil baseColor_def)
next
  case (snoc x xs)
  then show ?case
    by (simp add: emphasis_snoc baseColor_or baseColor_fg_attr split: option.split)
qed

lemma baseColor_emphasis_bg: "baseColor (emphasis stringToBgAttr raw) = 0"
proof (induction raw rule: rev_induct)
  case Nil
  show ?case by (simp add: emphasis_Nil baseColor_def)
next
  case (snoc x xs)
  then show ?case
    by (simp add: emphasis_snoc baseColor_or baseColor_bg_attr split: option.split)
qed

text \<open>
  Claim C4.  For every token sequence, the base colour of each channel of the resolved
  style (the attribute without its emphasis flags) is the colour named by the last token
  that the channel's colour table knows, and it is the value the first loop leaves in
  the channel.  For \<open>["red", "blue"]\<close> the foreground base colour is blue.
\<close>

theorem last_color_wins:
  "baseColor (fg (stringsToStyle raw)) = lastMatch stringToFg raw
   \<and> baseColor (bg (stringsToStyle raw)) = lastMatch stringToBg raw
   \<and> fg (fold colorStep raw \<lparr> fg = ColorDefault, bg = ColorDefault \<rparr>) = lastMatch stringToFg raw
   \<and> bg (fold colorStep raw \<lparr> fg = ColorDefault, bg = ColorDefault \<rparr>) = lastMatch stringToBg raw
   \<and> lastMatch stringToFg [''red'', ''blue''] = ColorBlue
   \<and> baseColor (fg (stringsToStyle [''red'', ''blue''])) = ColorBlue"
  apply (intro conjI)
  apply (simp add: stringsToStyle_fg baseColor_or baseColor_lastMatch_fg baseColor_emphasis_fg)
  apply (simp add: stringsToStyle_bg baseColor_or baseColor_lastMatch_bg baseColor_emphasis_bg)
  apply (simp add: first_pass_fg lastMatch_def split: list.split)
  apply (simp add: first_pass_bg lastMatch_def split: list.split)
  apply (simp add: lastMatch_def List.map_filter_def stringToFg_def)
  apply (simp add: stringsToStyle_fg baseColor_or baseColor_lastMatch_fg baseColor_emphasis_fg)
  apply (simp add: lastMatch_def List.map_filter_def stringToFg_def)
  done


lemma and_or_absorb: "(a OR b) AND a = (a :: Attribute)"
  by (rule bit_eqI) (auto simp add: bit_and_iff bit_or_iff)

lemma emphasis_append: "emphasis tbl (xs @ ys) = emphasis tbl xs OR emphasis tbl ys"
proof (induction ys rule: rev_induct)
  case Nil
  show ?case by (simp add: emphasis_Nil)
next
  case (snoc y ys)
  have "emphasis tbl (xs @ ys @ [y]) = emphasis tbl ((xs @ ys) @ [y])" by simp
  also have "\<dots> = (case tbl y of None \<Rightarrow> emphasis tbl (xs @ ys)
                      | Some a \<Rightarrow> emphasis tbl (xs @ ys) OR a)"
    by (rule emphasis_snoc)
  finally show ?case using snoc
    by (simp add: emphasis_snoc or.assoc split: option.split)
qed

lemma map_filter_append:
  "List.map_filter f (xs @ ys) = List.map_filter f xs @ List.map_filter f ys"
  by (simp add: List.map_filter_def)

lemma map_filter_none: "\<forall>t\<in>set xs. f t = None \<Longrightarrow> List.map_filter f xs = []"
  by (induction xs) (simp_all add: map_filter_Cons List.map_filter_def)

lemma lastMatch_swap:
  "\<forall>t\<in>set es. tbl t = None \<Longrightarrow> lastMatch tbl (cs @ es) = lastMatch tbl (es @ cs)"
  by (simp add: lastMatch_def map_filter_append map_filter_none)

text \<open>
  Claim C5.  For every token sequence, each channel of the resolved style is the value
  left by the first loop OR'ed with the emphasis flags that the sequence names, and
  clearing the emphasis flags gives back the colour of the first loop: the second loop
  never clears or replaces it.  \<open>["red", "bold"]\<close> gives red combined with bold, not
  plain bold.  Tokens that name no colour can be moved from behind the others to the
  front without changing the result.
\<close>

theorem emphasis_keeps_base:
  "fg (stringsToStyle raw) =
     fg (fold colorStep raw \<lparr> fg = ColorDefault, bg = ColorDefault \<rparr>)
       OR emphasis stringToFgAttr raw
   \<and> bg (stringsToStyle raw) =
     bg (fold colorStep raw \<lparr> fg = ColorDefault, bg = ColorDefault \<rparr>)
       OR emphasis stringToBgAttr raw
   \<and> baseColor (fg (stringsToStyle raw)) =
     fg (fold colorStep raw \<lparr> fg = ColorDefault, bg = ColorDefault \<rparr>)
   \<and> baseColor (bg (stringsToStyle raw)) =
     bg (fold colorStep raw \<lparr> fg = ColorDefault, bg = ColorDefault \<rparr>)
   \<and> stringsToStyle [''red'', ''bold''] = \<lparr> fg = ColorRed OR AttrBold, bg = ColorDefault \<rparr>
   \<and> fg (stringsToStyle [''red'', ''bold'']) \<noteq> AttrBold
   \<and> ((\<forall>t\<in>set es. stringToFg t = None \<and> stringToBg t = None) \<longrightarrow>
        stringsToStyle (cs @ es) = stringsToStyle (es @ cs))"
proof -
  let ?d = "\<lparr> fg = ColorDefault, bg = ColorDefault \<rparr>"
  have base_fg: "fg (fold colorStep raw ?d) = lastMatch stringToFg raw" for raw
    by (simp add: first_pass_fg lastMatch_def split: list.split)
  have base_bg: "bg (fold colorStep raw ?d) = lastMatch stringToBg raw" for raw
    by (simp add: first_pass_bg lastMatch_def split: list.split)
  have c1: "fg (stringsToStyle raw) = fg (fold colorStep raw ?d) OR emphasis stringToFgAttr raw"
    by (simp add: stringsToStyle_def second_pass_fg)
  have c2: "bg (stringsToStyle raw) = bg (fold colorStep raw ?d) OR emphasis stringToBgAttr raw"
    by (simp add: stringsToStyle_def second_pass_bg)
  have c3: "baseColor (fg (stringsToStyle raw)) = fg (fold colorStep raw ?d)"
    by (simp add: base_fg stringsToStyle_fg baseColor_or baseColor_lastMatch_fg
        baseColor_emphasis_fg)
  have c4: "baseColor (bg (stringsToStyle raw)) = bg (fold colorStep raw ?d)"
    by (simp add: base_bg stringsToStyle_bg baseColor_or baseColor_lastMatch_bg
        baseColor_emphasis_bg)
  have c5: "stringsToStyle [''red'', ''bold''] = \<lparr> fg = ColorRed OR AttrBold, bg = ColorDefault \<rparr>"
    by (simp add: stringsToStyle_def colorStep_def attrStep_def stringToFg_def stringToBg_def
        stringToFgAttr_def stringToBgAttr_def termbox_defs)
  have c6: "fg (stringsToStyle [''red'', ''bold'']) \<noteq> AttrBold"
    by (simp add: c5 termbox_defs)
  have c7: "stringsToStyle (cs @ es) = stringsToStyle (es @ cs)"
    if h: "\<forall>t\<in>set es. stringToFg t = None \<and> stringToBg t = None"
  proof -
    from h have "lastMatch stringToFg (cs @ es) = lastMatch stringToFg (es @ cs)"
      by (intro lastMatch_swap) simp
    moreover from h have "lastMatch stringToBg (cs @ es) = lastMatch stringToBg (es @ cs)"
      by (intro lastMatch_swap) simp
    ultimately show ?thesis
      by (simp add: stringsToStyle_closed emphasis_append or.commute)
  qed
  from c1 c2 c3 c4 c5 c6 c7 show ?thesis by blast
qed

text \<open>Claim C5, at the emphasis tokens \<open>bold\<close>, \<open>blink\<close> and the colours \<open>red\<close>, \<open>on_blue\<close>.\<close>

theorem emphasis_keeps_base_witness:
  "stringToFg ''bold'' = None \<and> stringToBg ''bold'' = None
   \<and> stringToFg ''blink'' = None \<and> stringToBg ''blink'' = None
   \<and> stringsToStyle ([''red'', ''on_blue''] @ [''bold'', ''blink''])
       = stringsToStyle ([''bold'', ''blink''] @ [''red'', ''on_blue''])"
proof -
  have h: "\<forall>t\<in>set [''bold'', ''blink'']. stringToFg t = None \<and> stringToBg t = None"
    by (simp add: stringToFg_def stringToBg_def)
  from h emphasis_keeps_base [of "[]" "[''bold'', ''blink'']" "[''red'', ''on_blue'']"]
  have "stringsToStyle ([''red'', ''on_blue''] @ [''bold'', ''blink''])
       = stringsToStyle ([''bold'', ''blink''] @ [''red'', ''on_blue''])"
    by blast
  with h show ?thesis by simp
qed

lemma map_filter_filter:
  "\<forall>t. f t \<noteq> None \<longrightarrow> P t \<Longrightarrow> List.map_filter f (filter P xs) = List.map_filter f xs"
  by (induction xs) (auto simp add: map_filter_Cons List.map_filter_def split: option.split)

lemma recognized_tables:
  "stringToFg t \<noteq> None \<longrightarrow> recognized t"
  "stringToBg t \<noteq> None \<longrightarrow> recognized t"
  "stringToFgAttr t \<noteq> None \<longrightarrow> recognized t"
  "stringToBgAttr t \<noteq> None \<longrightarrow> recognized t"
  by (auto simp add: recognized_def dom_def)

lemma unrecognized_tables:
  "\<not> recognized t \<Longrightarrow> stringToFg t = None \<and> stringToBg t = None
     \<and> stringToFgAttr t = None \<and> stringToBgAttr t = None"
  by (auto simp add: recognized_def dom_def)

text \<open>
  Claim C7.  \<open>stringsToStyle\<close> is a total function into \<open>Style\<close>: it has no error
  result.  Dropping the tokens that no table knows does not change the resolved style,
  and a sequence without any known token resolves to the all-default style.
\<close>

theorem unrecognized_ignored:
  "stringsToStyle (filter recognized raw) = stringsToStyle raw
   \<and> ((\<forall>t\<in>set raw. \<not> recognized t) \<longrightarrow>
        stringsToStyle raw = \<lparr> fg = ColorDefault, bg = ColorDefault \<rparr>)"
proof (intro conjI impI)
  show "stringsToStyle (filter recognized raw) = stringsToStyle raw"
    by (simp add: stringsToStyle_closed lastMatch_def emphasis_def
        map_filter_filter recognized_tables)
next
  assume h: "\<forall>t\<in>set raw. \<not> recognized t"
  then have "List.map_filter stringToFg raw = []" "List.map_filter stringToBg raw = []"
    "List.map_filter stringToFgAttr raw = []" "List.map_filter stringToBgAttr raw = []"
    by (simp_all add: map_filter_none unrecognized_tables)
  then show "stringsToStyle raw = \<lparr> fg = ColorDefault, bg = ColorDefault \<rparr>"
    by (simp add: stringsToStyle_closed lastMatch_def emphasis_def ColorDefault_def)
qed

text \<open>Claim C7, at three tokens that no table knows.\<close>

theorem unrecognized_ignored_witness:
  "\<not> recognized ''purple'' \<and> \<not> recognized ''italic'' \<and> \<not> recognized ''Red''
   \<and> stringsToStyle [''purple'', ''italic'', ''Red''] = \<lparr> fg = ColorDefault, bg = ColorDefault \<rparr>"
proof -
  have h: "\<forall>t\<in>set [''purple'', ''italic'', ''Red'']. \<not> recognized t"
    by (simp add: recognized_def dom_def stringToFg_def stringToBg_def stringToFgAttr_def
        stringToBgAttr_def)
  from h unrecognized_ignored [of "[''purple'', ''italic'', ''Red'']"]
  have "stringsToStyle [''purple'', ''italic'', ''Red''] = \<lparr> fg = ColorDefault, bg = ColorDefault \<rparr>"
    by blast
  with h show ?thesis by simp
qed

lemma stringToBgAttr_eq: "stringToBgAttr t = (if t = ''blink'' then Some AttrBold else None)"
  by (simp add: stringToBgAttr_def)

lemma emphasis_bg_closed:
  "emphasis stringToBgAttr raw = (if ''blink'' \<in> set raw then AttrBold else 0)"
proof (induction raw rule: rev_induct)
  case Nil
  show ?case by (simp add: emphasis_Nil)
next
  case (snoc x xs)
  then show ?case by (simp add: emphasis_snoc stringToBgAttr_eq)
qed

text \<open>
  Claim C9.  The background emphasis table maps \<open>blink\<close> to the bold attribute (which
  is not the value that the foreground table gives to \<open>blink\<close>), and for every token
  sequence that contains \<open>blink\<close> the background of the resolved style is its base
  colour OR'ed with the bold bit, so the bold bit is set in it.
\<close>

theorem bg_blink_is_bold:
  "stringToBgAttr ''blink'' = Some AttrBold
   \<and> AttrBold \<noteq> AttrReverse
   \<and> stringToFgAttr ''blink'' = Some AttrReverse
   \<and> (''blink'' \<in> set raw \<longrightarrow>
        bg (stringsToStyle raw) = lastMatch stringToBg raw OR AttrBold
        \<and> bg (stringsToStyle raw) AND AttrBold = AttrBold)"
proof (intro conjI impI)
  show "stringToBgAttr ''blink'' = Some AttrBold" by (simp add: stringToBgAttr_eq)
  show "AttrBold \<noteq> AttrReverse" by (simp add: termbox_defs)
  show "stringToFgAttr ''blink'' = Some AttrReverse" by (simp add: stringToFgAttr_def)
next
  assume h: "''blink'' \<in> set raw"
  then show e: "bg (stringsToStyle raw) = lastMatch stringToBg raw OR AttrBold"
    by (simp add: stringsToStyle_bg emphasis_bg_closed)
  show "bg (stringsToStyle raw) AND AttrBold = AttrBold"
    by (simp add: e and_or_absorb or.commute)
qed

text \<open>Claim C9, at \<open>["on_red", "blink"]\<close>.\<close>

theorem bg_blink_is_bold_witness:
  "''blink'' \<in> set [''on_red'', ''blink'']
   \<and> bg (stringsToStyle [''on_red'', ''blink'']) = ColorRed OR AttrBold"
proof -
  have h: "''blink'' \<in> set [''on_red'', ''blink'']" by simp
  have l: "lastMatch stringToBg [''on_red'', ''blink''] = ColorRed"
    by (simp add: lastMatch_def List.map_filter_def stringToBg_def)
  from h l bg_blink_is_bold [of "[''on_red'', ''blink'']"] show ?thesis by simp
qed

section \<open>The configuration and its decoding: lemmas and claims\<close>

lemma array_strings_strings: "array_strings (map JString raw) saved = (raw, saved)"
  by (induction raw) (simp_all add: value_string_def)

lemma Style_UnmarshalJSON_tokens:
  "Style_UnmarshalJSON (JArray (map JString raw)) s = (stringsToStyle raw, None)"
  by (simp add: Style_UnmarshalJSON_def Unmarshal_strings_def value_strings_def
      array_strings_strings)

lemma findField_Config_exact:
  "findField Config_fields ''Action'' = Some FAction"
  "findField Config_fields ''Keymap'' = Some FKeymap"
  "findField Config_fields ''Matcher'' = Some FMatcher"
  "findField Config_fields ''Style'' = Some FStyle"
  "findField Config_fields ''CustomMatcher'' = Some FCustomMatcher"
  "findField Config_fields ''Prompt'' = Some FPrompt"
  by (simp_all add: findField_def Config_fields_def)

lemma findField_StyleSet_exact:
  "findField StyleSet_fields ''Basic'' = Some FBasic"
  "findField StyleSet_fields ''SavedSelection'' = Some FSavedSelection"
  "findField StyleSet_fields ''Selected'' = Some FSelected"
  "findField StyleSet_fields ''Query'' = Some FQuery"
  "findField StyleSet_fields ''Matched'' = Some FMatched"
  by (simp_all add: findField_def StyleSet_fields_def)

text \<open>
  Claim C1, as the code has it.  A configuration made by \<open>NewConfig\<close> has an allocated,
  empty \<open>Keymap\<close>, while \<open>Action\<close> and \<open>CustomMatcher\<close> are \<open>nil\<close>; reading any key from
  any of the three reports the key as absent and does not fail.  \<open>Matcher\<close> is
  "IgnoreCase", \<open>Prompt\<close> is "QUERY>", and \<open>Style\<close> holds the five default styles.
\<close>

theorem NewConfig_defaults:
  "Keymap NewConfig = Some Map.empty
   \<and> Action NewConfig = None
   \<and> CustomMatcher NewConfig = None
   \<and> mapIndex (Action NewConfig) a = None
   \<and> mapIndex (Keymap NewConfig) k = None
   \<and> mapIndex (CustomMatcher NewConfig) m = None
   \<and> Matcher NewConfig = ''IgnoreCase''
   \<and> Prompt NewConfig = ''QUERY>''
   \<and> Style NewConfig =
       \<lparr> Basic = \<lparr> fg = ColorDefault, bg = ColorDefault \<rparr>,
         SavedSelection = \<lparr> fg = ColorBlack OR AttrBold, bg = ColorCyan \<rparr>,
         Selected = \<lparr> fg = ColorDefault OR AttrUnderline, bg = ColorMagenta \<rparr>,
         Query = \<lparr> fg = ColorDefault, bg = ColorDefault \<rparr>,
         Matched = \<lparr> fg = ColorCyan, bg = ColorDefault \<rparr> \<rparr>"
  by (simp add: NewConfig_def mapIndex_def IgnoreCaseMatch_def NewStyleSet_def)

text \<open>
  Claim C1 as stated fails: the three maps of a new configuration are not all allocated
  empty maps.
\<close>

theorem NewConfig_maps_counterexample:
  "\<not> (Action NewConfig = Some Map.empty
       \<and> Keymap NewConfig = Some Map.empty
       \<and> CustomMatcher NewConfig = Some Map.empty)"
  by (simp add: NewConfig_def)

lemma object_StyleSet_step:
  "findField StyleSet_fields k = Some f \<Longrightarrow>
     object_StyleSet ((k, JArray (map JString raw)) # kvs) ss saved =
       object_StyleSet kvs (set_slot f (stringsToStyle raw) ss) saved"
  by (simp add: Style_UnmarshalJSON_tokens)

lemma Decode_Selected_empty:
  "Decode (Inr (JObject [(''Style'', JObject [(''Selected'', JArray [])])])) NewConfig =
     (NewConfig\<lparr> Style := NewStyleSet\<lparr> Selected := \<lparr> fg = ColorDefault, bg = ColorDefault \<rparr> \<rparr> \<rparr>, None)"
  using Style_UnmarshalJSON_tokens [of "[]"]
  by (simp add: Decode_def value_Config_def findField_Config_exact value_field_def
      value_StyleSet_def findField_StyleSet_exact set_slot_def slot_def NewConfig_def
      stringsToStyle_def)


text \<open>
  Claim C10.  Whatever a \<open>Style\<close> held before, \<open>UnmarshalJSON\<close> on a sequence of tokens
  leaves it equal to the sequence resolved from the all-default base, without error; a
  member of a \<open>Style\<close> object that selects a slot sets that slot to the resolved style
  and decoding goes on with the next member.  The empty token list resolves to the
  all-default style, so decoding \<open>[]\<close> into \<open>Selected\<close> or \<open>SavedSelection\<close> of a new
  configuration replaces their constructed defaults, which are not all-default.
\<close>

theorem UnmarshalJSON_replaces:
  "Style_UnmarshalJSON (JArray (map JString raw)) s = (stringsToStyle raw, None)
   \<and> (findField StyleSet_fields k = Some f \<longrightarrow>
        object_StyleSet ((k, JArray (map JString raw)) # kvs) ss saved =
          object_StyleSet kvs (set_slot f (stringsToStyle raw) ss) saved)
   \<and> stringsToStyle [] = \<lparr> fg = ColorDefault, bg = ColorDefault \<rparr>
   \<and> Decode (Inr (JObject [(''Style'', JObject [(''Selected'', JArray [])])])) NewConfig =
       (NewConfig\<lparr> Style := NewStyleSet\<lparr> Selected := \<lparr> fg = ColorDefault, bg = ColorDefault \<rparr> \<rparr> \<rparr>,
        None)
   \<and> Selected NewStyleSet \<noteq> \<lparr> fg = ColorDefault, bg = ColorDefault \<rparr>
   \<and> Style_UnmarshalJSON (JArray []) (SavedSelection NewStyleSet) =
       (\<lparr> fg = ColorDefault, bg = ColorDefault \<rparr>, None)
   \<and> SavedSelection NewStyleSet \<noteq> \<lparr> fg = ColorDefault, bg = ColorDefault \<rparr>"
proof (intro conjI impI)
  show "Style_UnmarshalJSON (JArray (map JString raw)) s = (stringsToStyle raw, None)"
    by (rule Style_UnmarshalJSON_tokens)
  show "object_StyleSet ((k, JArray (map JString raw)) # kvs) ss saved =
          object_StyleSet kvs (set_slot f (stringsToStyle raw) ss) saved"
    if "findField StyleSet_fields k = Some f"
    using that by (rule object_StyleSet_step)
  show "stringsToStyle [] = \<lparr> fg = ColorDefault, bg = ColorDefault \<rparr>"
    by (simp add: stringsToStyle_def)
  show "Decode (Inr (JObject [(''Style'', JObject [(''Selected'', JArray [])])])) NewConfig =
       (NewConfig\<lparr> Style := NewStyleSet\<lparr> Selected := \<lparr> fg = ColorDefault, bg = ColorDefault \<rparr> \<rparr> \<rparr>,
        None)"
    by (rule Decode_Selected_empty)
  show "Selected NewStyleSet \<noteq> \<lparr> fg = ColorDefault, bg = ColorDefault \<rparr>"
    by (simp add: NewStyleSet_def termbox_defs)
  show "Style_UnmarshalJSON (JArray []) (SavedSelection NewStyleSet) =
       (\<lparr> fg = ColorDefault, bg = ColorDefault \<rparr>, None)"
    using Style_UnmarshalJSON_tokens [of "[]"] by (simp add: stringsToStyle_def)
  show "SavedSelection NewStyleSet \<noteq> \<lparr> fg = ColorDefault, bg = ColorDefault \<rparr>"
    by (simp add: NewStyleSet_def termbox_defs)
qed

text \<open>
  Claim C10, at the member \<open>"selected": ["on_blue", "underline"]\<close>, whose key selects
  the slot \<open>Selected\<close> by case folding.
\<close>

theorem UnmarshalJSON_replaces_witness:
  "findField StyleSet_fields ''selected'' = Some FSelected
   \<and> object_StyleSet [(''selected'', JArray (map JString [''on_blue'', ''underline'']))]
        NewStyleSet None =
      Continue (NewStyleSet\<lparr> Selected := \<lparr> fg = ColorDefault OR AttrUnderline, bg = ColorBlue \<rparr> \<rparr>) None"
proof -
  have h: "findField StyleSet_fields ''selected'' = Some FSelected"
    by code_simp
  have v: "stringsToStyle [''on_blue'', ''underline''] =
             \<lparr> fg = ColorDefault OR AttrUnderline, bg = ColorBlue \<rparr>"
    by (simp add: stringsToStyle_def colorStep_def attrStep_def stringToFg_def stringToBg_def
        stringToFgAttr_def stringToBgAttr_def)
  from h UnmarshalJSON_replaces
    [of "[''on_blue'', ''underline'']" _ "''selected''" FSelected "[]" NewStyleSet None]
  have "object_StyleSet [(''selected'', JArray (map JString [''on_blue'', ''underline'']))]
        NewStyleSet None =
      object_StyleSet [] (set_slot FSelected (stringsToStyle [''on_blue'', ''underline'']) NewStyleSet) None"
    by blast
  with h v show ?thesis by (simp add: set_slot_def)
qed





lemma ReadFilename_fst:
  "fst (ReadFilename w c f) =
     (case openFile w f of
        Inl e \<Rightarrow> c
      | Inr stream \<Rightarrow> (case stream of Inl e \<Rightarrow> c | Inr j \<Rightarrow> target (value_Config j c None)))"
  by (simp add: ReadFilename_def Decode_def target_def
      split: sum.split outcome.split option.split prod.split)













lemma openFile_fileWorld: "openFile (fileWorld stream) f = Inr stream"
  by (simp add: fileWorld_def)



text \<open>
  Claim C2 as stated fails: at a file holding \<open>{"Prompt": "> ", "Matcher": 5}\<close>
  \<open>ReadFilename\<close> returns a type mismatch for \<open>Matcher\<close>, and the prompt of the
  configuration has been overwritten.
\<close>

theorem failure_mutates_counterexample:
  "\<not> (\<forall>w c f. snd (ReadFilename w c f) \<noteq> None \<longrightarrow> fst (ReadFilename w c f) = c)"
proof
  let ?doc = "JObject [(''Prompt'', JString ''> ''), (''Matcher'', JNumber ''5'')]"
  let ?w = "fileWorld (Inr ?doc)"
  assume a: "\<forall>w c f. snd (ReadFilename w c f) \<noteq> None \<longrightarrow> fst (ReadFilename w c f) = c"
  have r: "ReadFilename ?w NewConfig ''config.json'' =
          (NewConfig\<lparr> Prompt := ''> '' \<rparr>, Some (UnmarshalTypeError ''number'' ''string''))"
    by (simp add: ReadFilename_def openFile_fileWorld Decode_def value_Config_def
        findField_Config_exact value_field_def value_string_def saveError_def typeError_def
        jsonKind_def)
  from a have "snd (ReadFilename ?w NewConfig ''config.json'') \<noteq> None \<longrightarrow>
      fst (ReadFilename ?w NewConfig ''config.json'') = NewConfig"
    by blast
  with r have "NewConfig\<lparr> Prompt := ''> '' \<rparr> = NewConfig" by simp
  then have "Prompt (NewConfig\<lparr> Prompt := ''> '' \<rparr>) = Prompt NewConfig" by simp
  then show False by (simp add: NewConfig_def)
qed

text \<open>
  Claim C2, as the code has it.  When the file cannot be opened, or no JSON value can be
  read from it, \<open>ReadFilename\<close> returns that error and the configuration is unchanged;
  the configuration is also unchanged when the document is not a JSON object.
\<close>

theorem failure_before_decoding:
  "(openFile w f = Inl e \<longrightarrow> ReadFilename w c f = (c, Some e))
   \<and> (openFile w f = Inr (Inl e) \<longrightarrow> ReadFilename w c f = (c, Some e))
   \<and> (openFile w f = Inr (Inr j) \<and> (\<forall>kvs. j \<noteq> JObject kvs) \<longrightarrow>
        fst (ReadFilename w c f) = c)"
proof (intro conjI impI)
  assume "openFile w f = Inl e"
  then show "ReadFilename w c f = (c, Some e)" by (simp add: ReadFilename_def)
next
  assume "openFile w f = Inr (Inl e)"
  then show "ReadFilename w c f = (c, Some e)" by (simp add: ReadFilename_def Decode_def)
next
  assume h: "openFile w f = Inr (Inr j) \<and> (\<forall>kvs. j \<noteq> JObject kvs)"
  then have "target (value_Config j c None) = c"
    by (cases j) (simp_all add: value_Config_def target_def)
  with h show "fst (ReadFilename w c f) = c" by (simp add: ReadFilename_fst)
qed

text \<open>
  Claim C2 as amended, at a file that cannot be opened, at a stream without a JSON
  value, and at the document \<open>[]\<close>.
\<close>

theorem failure_before_decoding_witness:
  "openFile (emptyWorld (Inl (ErrorString ''no home''))) ''config.json''
     = Inl (PathError ''open'' ''config.json'')
   \<and> ReadFilename (emptyWorld (Inl (ErrorString ''no home''))) NewConfig ''config.json''
     = (NewConfig, Some (PathError ''open'' ''config.json''))
   \<and> openFile (fileWorld (Inl StreamError)) ''config.json'' = Inr (Inl StreamError)
   \<and> ReadFilename (fileWorld (Inl StreamError)) NewConfig ''config.json''
     = (NewConfig, Some StreamError)
   \<and> openFile (fileWorld (Inr (JArray []))) ''config.json'' = Inr (Inr (JArray []))
   \<and> fst (ReadFilename (fileWorld (Inr (JArray []))) NewConfig ''config.json'') = NewConfig"
proof -
  let ?a = "emptyWorld (Inl (ErrorString ''no home''))"
  let ?b = "fileWorld (Inl StreamError)"
  let ?c = "fileWorld (Inr (JArray []))"
  have oa: "openFile ?a ''config.json'' = Inl (PathError ''open'' ''config.json'')"
    by (simp add: emptyWorld_def)
  have ob: "openFile ?b ''config.json'' = Inr (Inl StreamError)"
    by (rule openFile_fileWorld)
  have oc: "openFile ?c ''config.json'' = Inr (Inr (JArray []))"
    by (rule openFile_fileWorld)
  from oa failure_before_decoding [of ?a "''config.json''" _ NewConfig]
  have ra: "ReadFilename ?a NewConfig ''config.json''
     = (NewConfig, Some (PathError ''open'' ''config.json''))"
    by blast
  from ob failure_before_decoding [of ?b "''config.json''" StreamError NewConfig]
  have rb: "ReadFilename ?b NewConfig ''config.json'' = (NewConfig, Some StreamError)"
    by blast
  have "\<forall>kvs. JArray [] \<noteq> JObject kvs" by simp
  with oc failure_before_decoding [of ?c "''config.json''" _ NewConfig "JArray []"]
  have rc: "fst (ReadFilename ?c NewConfig ''config.json'') = NewConfig"
    by blast
  from oa ra ob rb oc rc show ?thesis by blast
qed

section \<open>The search for the configuration file: lemmas and claims\<close>

lemma locateRcfileIn_eq:
  "locateRcfileIn w dir tr =
     ((case stat w (rcfile dir) of Some err \<Rightarrow> Inl err | None \<Rightarrow> Inr (rcfile dir)),
      tr @ [Stat (rcfile dir)])"
  by (simp add: locateRcfileIn_def rcfile_def Let_def split: option.split)

lemma statsOf_append: "statsOf (xs @ ys) = statsOf xs @ statsOf ys"
  by (simp add: statsOf_def List.map_filter_def)

lemma statsOf_simps:
  "statsOf [] = []"
  "statsOf (Stat p # tr) = p # statsOf tr"
  "statsOf (Getenv v # tr) = statsOf tr"
  "statsOf (CallHomedir # tr) = statsOf tr"
  by (simp_all add: statsOf_def List.map_filter_def)

lemma tryDirs_eq:
  "tryDirs w dirs tr =
     (find (\<lambda>p. stat w p = None) (map (\<lambda>d. rcfile (Join [d, ''peco''])) dirs),
      tr @ map Stat (probes w (map (\<lambda>d. rcfile (Join [d, ''peco''])) dirs)))"
proof (induction dirs arbitrary: tr)
  case Nil
  show ?case by simp
next
  case (Cons d ds)
  show ?case
  proof (cases "stat w (rcfile (Join [d, ''peco'']))")
    case None
    then show ?thesis by (simp add: locateRcfileIn_eq)
  next
    case (Some e)
    with Cons show ?thesis by (simp add: locateRcfileIn_eq)
  qed
qed

lemma find_append:
  "find P (xs @ ys) = (case find P xs of Some x \<Rightarrow> Some x | None \<Rightarrow> find P ys)"
  by (induction xs) simp_all

lemma probes_append:
  "probes w (xs @ ys) =
     (case find (\<lambda>p. stat w p = None) xs of Some x \<Rightarrow> probes w xs | None \<Rightarrow> xs @ probes w ys)"
  by (induction xs) (simp_all split: option.split)

lemma probes_none: "find (\<lambda>p. stat w p = None) xs = None \<Longrightarrow> probes w xs = xs"
  by (induction xs) (auto split: if_splits)

lemma statsOf_Stat: "statsOf (map Stat ps) = ps"
  by (induction ps) (simp_all add: statsOf_simps)

lemma statsOf_Stat_comp: "statsOf (map (Stat \<circ> f) xs) = map f xs"
  by (induction xs) (simp_all add: statsOf_simps)

lemma LocateRcfile_result:
  "fst (LocateRcfile w) =
     (case find (\<lambda>p. stat w p = None) (candidates w) of
        Some p \<Rightarrow> Inr p
      | None \<Rightarrow> Inl notFound)"
  by (cases "getenv w ''XDG_CONFIG_HOME'' = []"; cases "homedirFunc w";
      cases "getenv w ''XDG_CONFIG_DIRS'' = []")
    (simp_all add: LocateRcfile_def candidates_def locateRcfileIn_eq tryDirs_eq find_append
      Let_def split: option.split)

lemma LocateRcfile_stats:
  "statsOf (snd (LocateRcfile w)) = probes w (candidates w)"
  by (cases "getenv w ''XDG_CONFIG_HOME'' = []"; cases "homedirFunc w";
      cases "getenv w ''XDG_CONFIG_DIRS'' = []")
    (simp_all add: LocateRcfile_def candidates_def locateRcfileIn_eq tryDirs_eq find_append
      probes_append probes_none statsOf_append statsOf_simps statsOf_Stat statsOf_Stat_comp Let_def
      split: option.split)

lemma tmp_a_rcfile: "rcfile (Join [''/tmp/a'', ''peco'']) = ''/tmp/a/peco/config.json''"
  by code_simp

lemma LocateRcfile_first_hit:
  "getenv w ''XDG_CONFIG_HOME'' \<noteq> [] \<Longrightarrow>
   stat w (rcfile (Join [getenv w ''XDG_CONFIG_HOME'', ''peco''])) = None \<Longrightarrow>
   LocateRcfile w =
     (Inr (rcfile (Join [getenv w ''XDG_CONFIG_HOME'', ''peco''])),
      [CallHomedir, Getenv ''XDG_CONFIG_HOME'',
       Stat (rcfile (Join [getenv w ''XDG_CONFIG_HOME'', ''peco'']))])"
  by (simp add: LocateRcfile_def locateRcfileIn_eq Let_def)

text \<open>
  Claim C3.  \<open>LocateRcfile\<close> returns the first existing file of the candidate list
  (step 1 or else step 2, then the entries of \<open>XDG_CONFIG_DIRS\<close> in order, then the
  \<open>.peco\<close> directory of the home), and the paths it gives to \<open>os.Stat\<close> are exactly the
  candidates up to and including that file, in that order.  With \<open>XDG_CONFIG_HOME\<close>
  set and its candidate existing, the search returns that candidate after calling
  \<open>homedirFunc\<close>, reading \<open>XDG_CONFIG_HOME\<close> and one \<open>os.Stat\<close>: it neither reads
  \<open>XDG_CONFIG_DIRS\<close> nor looks at any other file.  So it is for
  \<open>XDG_CONFIG_HOME=/tmp/a\<close> and an existing \<open>/tmp/a/peco/config.json\<close>.
\<close>

theorem rcfile_search_order:
  "fst (LocateRcfile w) =
     (case find (\<lambda>p. stat w p = None) (candidates w) of
        Some p \<Rightarrow> Inr p
      | None \<Rightarrow> Inl notFound)
   \<and> statsOf (snd (LocateRcfile w)) = probes w (candidates w)
   \<and> (getenv w ''XDG_CONFIG_HOME'' \<noteq> []
        \<and> stat w (rcfile (Join [getenv w ''XDG_CONFIG_HOME'', ''peco''])) = None \<longrightarrow>
      LocateRcfile w =
        (Inr (rcfile (Join [getenv w ''XDG_CONFIG_HOME'', ''peco''])),
         [CallHomedir, Getenv ''XDG_CONFIG_HOME'',
          Stat (rcfile (Join [getenv w ''XDG_CONFIG_HOME'', ''peco'']))]))
   \<and> (getenv w ''XDG_CONFIG_HOME'' = ''/tmp/a''
        \<and> stat w ''/tmp/a/peco/config.json'' = None \<longrightarrow>
      LocateRcfile w =
        (Inr ''/tmp/a/peco/config.json'',
         [CallHomedir, Getenv ''XDG_CONFIG_HOME'', Stat ''/tmp/a/peco/config.json'']))"
proof (intro conjI impI)
  show "fst (LocateRcfile w) =
     (case find (\<lambda>p. stat w p = None) (candidates w) of
        Some p \<Rightarrow> Inr p
      | None \<Rightarrow> Inl notFound)"
    by (rule LocateRcfile_result)
  show "statsOf (snd (LocateRcfile w)) = probes w (candidates w)"
    by (rule LocateRcfile_stats)
next
  assume "getenv w ''XDG_CONFIG_HOME'' \<noteq> []
        \<and> stat w (rcfile (Join [getenv w ''XDG_CONFIG_HOME'', ''peco''])) = None"
  then show "LocateRcfile w =
        (Inr (rcfile (Join [getenv w ''XDG_CONFIG_HOME'', ''peco''])),
         [CallHomedir, Getenv ''XDG_CONFIG_HOME'',
          Stat (rcfile (Join [getenv w ''XDG_CONFIG_HOME'', ''peco'']))])"
    by (simp add: LocateRcfile_first_hit)
next
  assume h: "getenv w ''XDG_CONFIG_HOME'' = ''/tmp/a''
        \<and> stat w ''/tmp/a/peco/config.json'' = None"
  then have "getenv w ''XDG_CONFIG_HOME'' \<noteq> []"
    and "stat w (rcfile (Join [getenv w ''XDG_CONFIG_HOME'', ''peco''])) = None"
    by (simp_all add: tmp_a_rcfile)
  then have "LocateRcfile w =
     (Inr (rcfile (Join [getenv w ''XDG_CONFIG_HOME'', ''peco''])),
      [CallHomedir, Getenv ''XDG_CONFIG_HOME'',
       Stat (rcfile (Join [getenv w ''XDG_CONFIG_HOME'', ''peco'']))])"
    by (rule LocateRcfile_first_hit)
  with h show "LocateRcfile w =
        (Inr ''/tmp/a/peco/config.json'',
         [CallHomedir, Getenv ''XDG_CONFIG_HOME'', Stat ''/tmp/a/peco/config.json''])"
    by (simp add: tmp_a_rcfile)
qed

text \<open>
  Claim C3, in a world with \<open>XDG_CONFIG_HOME=/tmp/a\<close>, \<open>XDG_CONFIG_DIRS=/etc/xdg\<close> and
  a configuration file in each of the three places.
\<close>

theorem rcfile_search_order_witness:
  "getenv (xdgWorld [''/tmp/a/peco/config.json'', ''/etc/xdg/peco/config.json'',
       ''/home/u/.peco/config.json'']) ''XDG_CONFIG_HOME'' = ''/tmp/a''
   \<and> stat (xdgWorld [''/tmp/a/peco/config.json'', ''/etc/xdg/peco/config.json'',
       ''/home/u/.peco/config.json'']) ''/tmp/a/peco/config.json'' = None
   \<and> LocateRcfile (xdgWorld [''/tmp/a/peco/config.json'', ''/etc/xdg/peco/config.json'',
       ''/home/u/.peco/config.json'']) =
       (Inr ''/tmp/a/peco/config.json'',
        [CallHomedir, Getenv ''XDG_CONFIG_HOME'', Stat ''/tmp/a/peco/config.json''])"
proof -
  let ?w = "xdgWorld [''/tmp/a/peco/config.json'', ''/etc/xdg/peco/config.json'',
       ''/home/u/.peco/config.json'']"
  have g: "getenv ?w ''XDG_CONFIG_HOME'' = ''/tmp/a''" by (simp add: xdgWorld_def)
  have s: "stat ?w ''/tmp/a/peco/config.json'' = None" by (simp add: xdgWorld_def)
  from g s rcfile_search_order [of ?w]
  have "LocateRcfile ?w =
       (Inr ''/tmp/a/peco/config.json'',
        [CallHomedir, Getenv ''XDG_CONFIG_HOME'', Stat ''/tmp/a/peco/config.json''])"
    by blast
  with g s show ?thesis by blast
qed

text \<open>
  Claim C8.  When none of the candidate files exists, \<open>LocateRcfile\<close> returns the error
  "error: Config file not found" and no path; in particular when neither
  \<open>XDG_CONFIG_HOME\<close> nor \<open>XDG_CONFIG_DIRS\<close> is set and the home directory, if known,
  holds neither \<open>.config/peco/config.json\<close> nor \<open>.peco/config.json\<close>.
\<close>

theorem rcfile_not_found:
  "((\<forall>p\<in>set (candidates w). stat w p \<noteq> None) \<longrightarrow> fst (LocateRcfile w) = Inl notFound)
   \<and> (getenv w ''XDG_CONFIG_HOME'' = [] \<and> getenv w ''XDG_CONFIG_DIRS'' = []
        \<and> (\<forall>home. homedirFunc w = Inr home \<longrightarrow>
              stat w (rcfile (Join [home, ''.config'', ''peco''])) \<noteq> None
              \<and> stat w (rcfile (Join [home, ''.peco''])) \<noteq> None)
      \<longrightarrow> fst (LocateRcfile w) = Inl notFound)
   \<and> notFound = ErrorString ''error: Config file not found''"
proof (intro conjI impI)
  assume "\<forall>p\<in>set (candidates w). stat w p \<noteq> None"
  then have "find (\<lambda>p. stat w p = None) (candidates w) = None"
    by (simp add: find_None_iff)
  then show "fst (LocateRcfile w) = Inl notFound"
    by (simp add: LocateRcfile_result)
next
  assume h: "getenv w ''XDG_CONFIG_HOME'' = [] \<and> getenv w ''XDG_CONFIG_DIRS'' = []
        \<and> (\<forall>home. homedirFunc w = Inr home \<longrightarrow>
              stat w (rcfile (Join [home, ''.config'', ''peco''])) \<noteq> None
              \<and> stat w (rcfile (Join [home, ''.peco''])) \<noteq> None)"
  then have "\<forall>p\<in>set (candidates w). stat w p \<noteq> None"
    by (cases "homedirFunc w") (simp_all add: candidates_def)
  then have "find (\<lambda>p. stat w p = None) (candidates w) = None"
    by (simp add: find_None_iff)
  then show "fst (LocateRcfile w) = Inl notFound"
    by (simp add: LocateRcfile_result)
next
  show "notFound = ErrorString ''error: Config file not found''"
    by (simp add: notFound_def)
qed

text \<open>
  Claim C8, in a world with the home directory \<open>/home/u\<close>, no variable set and no file.
\<close>

theorem rcfile_not_found_witness:
  "getenv (emptyWorld (Inr ''/home/u'')) ''XDG_CONFIG_HOME'' = []
   \<and> getenv (emptyWorld (Inr ''/home/u'')) ''XDG_CONFIG_DIRS'' = []
   \<and> candidates (emptyWorld (Inr ''/home/u'')) =
       [''/home/u/.config/peco/config.json'', ''/home/u/.peco/config.json'']
   \<and> stat (emptyWorld (Inr ''/home/u'')) ''/home/u/.config/peco/config.json'' \<noteq> None
   \<and> stat (emptyWorld (Inr ''/home/u'')) ''/home/u/.peco/config.json'' \<noteq> None
   \<and> fst (LocateRcfile (emptyWorld (Inr ''/home/u''))) =
       Inl (ErrorString ''error: Config file not found'')"
proof -
  let ?w = "emptyWorld (Inr ''/home/u'')"
  have g: "getenv ?w ''XDG_CONFIG_HOME'' = []" "getenv ?w ''XDG_CONFIG_DIRS'' = []"
    by (simp_all add: emptyWorld_def)
  have p1: "rcfile (Join [''/home/u'', ''.config'', ''peco'']) = ''/home/u/.config/peco/config.json''"
    by code_simp
  have p2: "rcfile (Join [''/home/u'', ''.peco'']) = ''/home/u/.peco/config.json''"
    by code_simp
  have c: "candidates ?w = [''/home/u/.config/peco/config.json'', ''/home/u/.peco/config.json'']"
    by (simp add: candidates_def emptyWorld_def p1 p2)
  have s: "stat ?w ''/home/u/.config/peco/config.json'' \<noteq> None"
    "stat ?w ''/home/u/.peco/config.json'' \<noteq> None"
    by (simp_all add: emptyWorld_def)
  from c s have "\<forall>p\<in>set (candidates ?w). stat ?w p \<noteq> None" by simp
  with rcfile_not_found [of ?w]
  have "fst (LocateRcfile ?w) = Inl notFound"
    and "notFound = ErrorString ''error: Config file not found''"
    by blast+
  then have "fst (LocateRcfile ?w) = Inl (ErrorString ''error: Config file not found'')"
    by simp
  with g c s show ?thesis by blast
qed

end
